theory Spec2Isabelle
  imports Main "HOL-Library.Word"
begin

unbundle bit_operations_syntax

section \<open>GPIO character-device queries of \<^verbatim>\<open>gpio.go\<close>\<close>

text \<open>
  The development embeds \<^verbatim>\<open>src/gpio.go\<close>: the flag rendering
  \<^verbatim>\<open>GPIOLineFlag.String\<close>, the C helper \<^verbatim>\<open>convert_line_attribute\<close>, and the
  three entry points \<^verbatim>\<open>OpenGPIO\<close>, \<^verbatim>\<open>GetChipInfo\<close> and \<^verbatim>\<open>GetLineInfo\<close>.

  Platform conventions used throughout, those of a 64-bit little-endian Linux target such
  as aarch64 or x86_64: Go's \<^verbatim>\<open>int\<close> and \<^verbatim>\<open>uintptr\<close> have 64 bits, C's \<^verbatim>\<open>int\<close> has
  32 bits, a C \<^verbatim>\<open>char\<close> is one byte (HOL's \<^typ>\<open>char\<close>), and multi-byte integers lie in
  memory with the least significant byte first.
\<close>

subsection \<open>Line flags\<close>

type_synonym GPIOLineFlag = "64 word"

definition GPIOLineFlagUsed :: GPIOLineFlag where
  "GPIOLineFlagUsed = push_bit 0 1"

definition GPIOLineFlagActiveLow :: GPIOLineFlag where
  "GPIOLineFlagActiveLow = push_bit 1 1"

definition GPIOLineFlagInput :: GPIOLineFlag where
  "GPIOLineFlagInput = push_bit 2 1"

definition GPIOLineFlagOutput :: GPIOLineFlag where
  "GPIOLineFlagOutput = push_bit 3 1"

definition GPIOLineFlagEdgeRising :: GPIOLineFlag where
  "GPIOLineFlagEdgeRising = push_bit 4 1"

definition GPIOLineFlagEdgeFalling :: GPIOLineFlag where
  "GPIOLineFlagEdgeFalling = push_bit 5 1"

definition GPIOLineFlagOpenDrain :: GPIOLineFlag where
  "GPIOLineFlagOpenDrain = push_bit 6 1"

definition GPIOLineFlagOpenSource :: GPIOLineFlag where
  "GPIOLineFlagOpenSource = push_bit 7 1"

definition GPIOLineFlagBiasPullUp :: GPIOLineFlag where
  "GPIOLineFlagBiasPullUp = push_bit 8 1"

definition GPIOLineFlagBiasPullDown :: GPIOLineFlag where
  "GPIOLineFlagBiasPullDown = push_bit 9 1"

definition GPIOLineFlagBiasDisabled :: GPIOLineFlag where
  "GPIOLineFlagBiasDisabled = push_bit 10 1"

definition GPIOLineFlagEventClockRealtime :: GPIOLineFlag where
  "GPIOLineFlagEventClockRealtime = push_bit 11 1"

definition GPIOLineFlagEventClockHTE :: GPIOLineFlag where
  "GPIOLineFlagEventClockHTE = push_bit 12 1"

text \<open>
  Go's \<^verbatim>\<open>strings.Join(elems, sep)\<close>: the empty string for no element, the element itself
  for one, and otherwise the elements with \<^verbatim>\<open>sep\<close> between neighbours.
\<close>

fun strings_Join :: "string list \<Rightarrow> string \<Rightarrow> string" where
  "strings_Join [] sep = []"
| "strings_Join [e] sep = e"
| "strings_Join (e # es) sep = e @ sep @ strings_Join es sep"

text \<open>
  \<^verbatim>\<open>func (flag GPIOLineFlag) String() string\<close>: thirteen tests in a row, each appending
  one name to the slice \<^verbatim>\<open>flags\<close>, then \<^verbatim>\<open>"None"\<close> for the empty slice and the joined
  names otherwise.
\<close>

definition String :: "GPIOLineFlag \<Rightarrow> string" where
  "String flag =
    (let flags = [];
         flags = (if flag AND GPIOLineFlagUsed \<noteq> 0 then flags @ [''Used''] else flags);
         flags = (if flag AND GPIOLineFlagActiveLow \<noteq> 0 then flags @ [''ActiveLow''] else flags);
         flags = (if flag AND GPIOLineFlagInput \<noteq> 0 then flags @ [''Input''] else flags);
         flags = (if flag AND GPIOLineFlagOutput \<noteq> 0 then flags @ [''Output''] else flags);
         flags = (if flag AND GPIOLineFlagEdgeRising \<noteq> 0 then flags @ [''EdgeRising''] else flags);
         flags = (if flag AND GPIOLineFlagEdgeFalling \<noteq> 0 then flags @ [''EdgeFalling''] else flags);
         flags = (if flag AND GPIOLineFlagOpenDrain \<noteq> 0 then flags @ [''OpenDrain''] else flags);
         flags = (if flag AND GPIOLineFlagOpenSource \<noteq> 0 then flags @ [''OpenSource''] else flags);
         flags = (if flag AND GPIOLineFlagBiasPullUp \<noteq> 0 then flags @ [''BiasPullUp''] else flags);
         flags = (if flag AND GPIOLineFlagBiasPullDown \<noteq> 0 then flags @ [''BiasPullDown''] else flags);
         flags = (if flag AND GPIOLineFlagBiasDisabled \<noteq> 0 then flags @ [''BiasDisabled''] else flags);
         flags = (if flag AND GPIOLineFlagEventClockRealtime \<noteq> 0
                  then flags @ [''EventClockRealtime''] else flags);
         flags = (if flag AND GPIOLineFlagEventClockHTE \<noteq> 0
                  then flags @ [''EventClockHTE''] else flags)
     in if length flags = 0 then ''None'' else strings_Join flags ''|'')"

text \<open>
  The declaration order of the thirteen named flags, each with the name \<^const>\<open>String\<close>
  prints for it. The table is what the specification calls the fixed declaration order; the
  lemma \<open>String_flag_table\<close> below shows that \<^const>\<open>String\<close> walks exactly this table.
\<close>

definition flag_table :: "(GPIOLineFlag \<times> string) list" where
  "flag_table =
    [(GPIOLineFlagUsed, ''Used''), (GPIOLineFlagActiveLow, ''ActiveLow''),
     (GPIOLineFlagInput, ''Input''), (GPIOLineFlagOutput, ''Output''),
     (GPIOLineFlagEdgeRising, ''EdgeRising''), (GPIOLineFlagEdgeFalling, ''EdgeFalling''),
     (GPIOLineFlagOpenDrain, ''OpenDrain''), (GPIOLineFlagOpenSource, ''OpenSource''),
     (GPIOLineFlagBiasPullUp, ''BiasPullUp''), (GPIOLineFlagBiasPullDown, ''BiasPullDown''),
     (GPIOLineFlagBiasDisabled, ''BiasDisabled''),
     (GPIOLineFlagEventClockRealtime, ''EventClockRealtime''),
     (GPIOLineFlagEventClockHTE, ''EventClockHTE'')]"

text \<open>The thirteen named bits together.\<close>

definition named_bits :: GPIOLineFlag where
  "named_bits = fold (\<lambda>(f, n) acc. acc OR f) flag_table 0"

text \<open>The names of the table entries whose bit is set in \<open>flag\<close>, in table order.\<close>

definition set_names :: "GPIOLineFlag \<Rightarrow> string list" where
  "set_names flag = map snd (filter (\<lambda>(f, n). flag AND f \<noteq> 0) flag_table)"

text \<open>The rendering as the specification words it: the set names joined, or \<open>None\<close>.\<close>

definition render_spec :: "GPIOLineFlag \<Rightarrow> string" where
  "render_spec flag =
    (if set_names flag = [] then ''None'' else strings_Join (set_names flag) ''|'')"

text \<open>
  Reading a rendering back, as the specification's round trip needs it: the rendering is cut
  at every \<open>|\<close> and the table is walked in declaration order, keeping the flags whose name
  is among the pieces; the token \<open>None\<close> stands for no flag. (The repository has no such
  reader; this one only states the round trip.)
\<close>

fun split_on :: "char \<Rightarrow> string \<Rightarrow> string list" where
  "split_on c [] = [[]]"
| "split_on c (x # xs) =
    (if x = c then [] # split_on c xs
     else (let r = split_on c xs in (x # hd r) # tl r))"

definition read_flags :: "string \<Rightarrow> GPIOLineFlag list" where
  "read_flags s =
    (if s = ''None'' then []
     else map fst (filter (\<lambda>(f, n). n \<in> set (split_on (CHR ''|'') s)) flag_table))"

subsection \<open>Line attributes\<close>

type_synonym GPIOLineAttributeID = "32 word"

definition GPIOLineAttributeIDFlags :: GPIOLineAttributeID where
  "GPIOLineAttributeIDFlags = 1"

definition GPIOLineAttributeIDOutputValues :: GPIOLineAttributeID where
  "GPIOLineAttributeIDOutputValues = 2"

definition GPIOLineAttributeIDDebounce :: GPIOLineAttributeID where
  "GPIOLineAttributeIDDebounce = 3"

text \<open>
  The interface \<^verbatim>\<open>GPIOLineAttribute\<close> with its three implementing structs: one
  constructor per struct, carrying the struct's only field.
\<close>

datatype GPIOLineAttribute =
    GPIOLineAttributeFlags "64 word"
  | GPIOLineAttributeOutputValues "64 word"
  | GPIOLineAttributeDebounce "32 word"

fun GetID :: "GPIOLineAttribute \<Rightarrow> GPIOLineAttributeID" where
  "GetID (GPIOLineAttributeFlags v) = GPIOLineAttributeIDFlags"
| "GetID (GPIOLineAttributeOutputValues v) = GPIOLineAttributeIDOutputValues"
| "GetID (GPIOLineAttributeDebounce v) = GPIOLineAttributeIDDebounce"

subsection \<open>The kernel's structs\<close>

text \<open>
  The constants and struct shapes of \<^verbatim>\<open>linux/gpio.h\<close>, which the cgo preamble includes.
  A \<^verbatim>\<open>char\<close> array is a list of \<^typ>\<open>char\<close>; its declared size is recorded in the
  well-formedness predicates below.
\<close>

definition GPIO_MAX_NAME_SIZE :: nat where
  "GPIO_MAX_NAME_SIZE = 32"

definition GPIO_V2_LINE_NUM_ATTRS_MAX :: nat where
  "GPIO_V2_LINE_NUM_ATTRS_MAX = 10"

definition GPIO_V2_LINE_ATTR_ID_FLAGS :: "32 word" where
  "GPIO_V2_LINE_ATTR_ID_FLAGS = 1"

definition GPIO_V2_LINE_ATTR_ID_OUTPUT_VALUES :: "32 word" where
  "GPIO_V2_LINE_ATTR_ID_OUTPUT_VALUES = 2"

definition GPIO_V2_LINE_ATTR_ID_DEBOUNCE :: "32 word" where
  "GPIO_V2_LINE_ATTR_ID_DEBOUNCE = 3"

text \<open>
  \<^verbatim>\<open>struct gpio_v2_line_attribute { __u32 id; __u32 padding; union { __aligned_u64 flags;
  __aligned_u64 values; __u32 debounce_period_us; }; }\<close>. The union is kept as its eight raw
  bytes, read as one 64-bit value; the three members are views of it. The 32-bit member lies
  at the union's first four bytes, which are the low half of the 64-bit value.
\<close>

record gpio_v2_line_attribute =
  attr_id :: "32 word"
  attr_padding :: "32 word"
  attr_union :: "64 word"

definition attr_flags :: "gpio_v2_line_attribute \<Rightarrow> 64 word" where
  "attr_flags a = attr_union a"

definition attr_values :: "gpio_v2_line_attribute \<Rightarrow> 64 word" where
  "attr_values a = attr_union a"

definition attr_debounce_period_us :: "gpio_v2_line_attribute \<Rightarrow> 32 word" where
  "attr_debounce_period_us a = ucast (attr_union a)"

text \<open>\<^verbatim>\<open>struct gpiochip_info { char name[32]; char label[32]; __u32 lines; }\<close>\<close>

record gpiochip_info =
  chip_name :: string
  chip_label :: string
  chip_lines :: "32 word"

text \<open>
  \<^verbatim>\<open>struct gpio_v2_line_info { char name[32]; char consumer[32]; __u32 offset;
  __u32 num_attrs; __aligned_u64 flags; struct gpio_v2_line_attribute attrs[10];
  __u32 padding[4]; }\<close>
\<close>

record gpio_v2_line_info =
  line_name :: string
  line_consumer :: string
  line_offset :: "32 word"
  line_num_attrs :: "32 word"
  line_flags :: "64 word"
  line_attrs :: "gpio_v2_line_attribute list"
  line_padding :: "32 word list"

definition wf_gpiochip_info :: "gpiochip_info \<Rightarrow> bool" where
  "wf_gpiochip_info info \<longleftrightarrow>
     length (chip_name info) = GPIO_MAX_NAME_SIZE \<and>
     length (chip_label info) = GPIO_MAX_NAME_SIZE"

definition wf_gpio_v2_line_info :: "gpio_v2_line_info \<Rightarrow> bool" where
  "wf_gpio_v2_line_info info \<longleftrightarrow>
     length (line_name info) = GPIO_MAX_NAME_SIZE \<and>
     length (line_consumer info) = GPIO_MAX_NAME_SIZE \<and>
     length (line_attrs info) = GPIO_V2_LINE_NUM_ATTRS_MAX \<and>
     length (line_padding info) = 4"

text \<open>The C helper \<^verbatim>\<open>convert_line_attribute\<close> of the cgo preamble.\<close>

definition convert_line_attribute :: "gpio_v2_line_attribute \<Rightarrow> 64 word" where
  "convert_line_attribute attr =
    (if attr_id attr = GPIO_V2_LINE_ATTR_ID_FLAGS then attr_flags attr
     else if attr_id attr = GPIO_V2_LINE_ATTR_ID_OUTPUT_VALUES then attr_values attr
     else if attr_id attr = GPIO_V2_LINE_ATTR_ID_DEBOUNCE then ucast (attr_debounce_period_us attr)
     else 0)"

subsection \<open>Memory as \<^verbatim>\<open>C.GoString\<close> sees it\<close>

text \<open>
  \<^verbatim>\<open>C.GoString(p)\<close> copies the bytes from \<open>p\<close> up to the first zero byte; it is given a
  pointer only, no length. Its argument here is the memory from \<open>p\<close> on: the bytes of the
  buffer \<open>p\<close> points into, followed by whatever lies behind the buffer. \<open>None\<close> stands for
  a read that finds no zero byte in the memory the model knows, which in C is undefined.
\<close>

definition NUL :: char where
  "NUL = CHR 0x00"

definition C_GoString :: "string \<Rightarrow> string option" where
  "C_GoString mem =
    (if NUL \<in> set mem then Some (takeWhile (\<lambda>c. c \<noteq> NUL) mem) else None)"

definition char_of_byte :: "8 word \<Rightarrow> char" where
  "char_of_byte b =
     Char (bit b 0) (bit b 1) (bit b 2) (bit b 3) (bit b 4) (bit b 5) (bit b 6) (bit b 7)"

definition u32_bytes :: "32 word \<Rightarrow> string" where
  "u32_bytes w = map (\<lambda>i. char_of_byte (ucast (drop_bit (8 * i) w))) [0, 1, 2, 3]"

definition u64_bytes :: "64 word \<Rightarrow> string" where
  "u64_bytes w =
     map (\<lambda>i. char_of_byte (ucast (drop_bit (8 * i) w))) [0, 1, 2, 3, 4, 5, 6, 7]"

definition attr_bytes :: "gpio_v2_line_attribute \<Rightarrow> string" where
  "attr_bytes a = u32_bytes (attr_id a) @ u32_bytes (attr_padding a) @ u64_bytes (attr_union a)"

text \<open>
  The memory from the start of each text field on: the field, the rest of its struct in
  declaration order, and the bytes \<open>beyond\<close> the struct.
\<close>

definition chip_label_mem :: "gpiochip_info \<Rightarrow> string \<Rightarrow> string" where
  "chip_label_mem info beyond = chip_label info @ u32_bytes (chip_lines info) @ beyond"

definition chip_name_mem :: "gpiochip_info \<Rightarrow> string \<Rightarrow> string" where
  "chip_name_mem info beyond = chip_name info @ chip_label_mem info beyond"

definition line_consumer_mem :: "gpio_v2_line_info \<Rightarrow> string \<Rightarrow> string" where
  "line_consumer_mem info beyond =
     line_consumer info @ u32_bytes (line_offset info) @ u32_bytes (line_num_attrs info) @
     u64_bytes (line_flags info) @ concat (map attr_bytes (line_attrs info)) @
     concat (map u32_bytes (line_padding info)) @ beyond"

definition line_name_mem :: "gpio_v2_line_info \<Rightarrow> string \<Rightarrow> string" where
  "line_name_mem info beyond = line_name info @ line_consumer_mem info beyond"

text \<open>
  The text of a fixed-capacity buffer as the specification words it: the bytes before the
  first zero byte, and never more than the capacity.
\<close>

definition fixed_buffer_text :: "nat \<Rightarrow> string \<Rightarrow> string" where
  "fixed_buffer_text capacity buf = takeWhile (\<lambda>c. c \<noteq> NUL) (take capacity buf)"

subsection \<open>The operating system, and what a Go call can end in\<close>

text \<open>
  \<^verbatim>\<open>syscall.Errno\<close> is a \<^verbatim>\<open>uintptr\<close>; \<^verbatim>\<open>os.OpenFile\<close> reports a
  \<^verbatim>\<open>*PathError\<close> with the operation, the path and the system's error number.
\<close>

datatype go_error =
    Errno "64 word"
  | PathError string string "64 word"

record os_File =
  Fd :: "64 word"

record GPIO =
  fd :: os_File


datatype ioctl_request = GPIO_GET_CHIPINFO_IOCTL | GPIO_V2_GET_LINEINFO_IOCTL

datatype syscall =
    SysOpen string int nat
  | SysIoctl "32 word" ioctl_request


text \<open>
  The system a call runs against. \<open>os_OpenFile\<close> answers \<^verbatim>\<open>os.OpenFile(name, flag, perm)\<close>.
  The two \<open>ioctl\<close> fields answer the requests on a descriptor and a struct with three things:
  the status \<^verbatim>\<open>ioctl(2)\<close> returns (a C \<^verbatim>\<open>int\<close>), the value it leaves in \<^verbatim>\<open>errno\<close>, and
  the struct as the kernel leaves it. \<open>memory_beyond\<close> is the memory behind the struct the
  Go function allocates.
\<close>

record system =
  os_OpenFile :: "string \<Rightarrow> int \<Rightarrow> nat \<Rightarrow> go_error + os_File"
  ioctl_chipinfo :: "32 word \<Rightarrow> gpiochip_info \<Rightarrow> 32 word \<times> 64 word \<times> gpiochip_info"
  ioctl_lineinfo :: "32 word \<Rightarrow> gpio_v2_line_info \<Rightarrow> 32 word \<times> 64 word \<times> gpio_v2_line_info"
  memory_beyond :: string

text \<open>
  A Go call returns a value with a \<^verbatim>\<open>nil\<close> error (\<open>Return\<close>), returns \<^verbatim>\<open>nil\<close> with an
  error (\<open>Fail\<close>), or does not return: a run-time panic (\<open>Panic\<close>, with the run-time's
  message), or a C read that left the known memory (\<open>Undefined_read\<close>).
\<close>

datatype 'a outcome =
    Return 'a
  | Fail go_error
  | Panic string
  | Undefined_read

text \<open>
  The C wrappers \<^verbatim>\<open>get_gpio_chip_info\<close> and \<^verbatim>\<open>get_gpio_v2_line_info\<close>, as cgo calls them
  in a two-value assignment: the first value is what the C function returns, the second is
  \<^verbatim>\<open>errno\<close>; the struct is updated in place.
\<close>

definition get_gpio_chip_info ::
  "system \<Rightarrow> 32 word \<Rightarrow> gpiochip_info \<Rightarrow> 32 word \<times> 64 word \<times> gpiochip_info" where
  "get_gpio_chip_info sys d info = ioctl_chipinfo sys d info"

definition get_gpio_v2_line_info ::
  "system \<Rightarrow> 32 word \<Rightarrow> gpio_v2_line_info \<Rightarrow> 32 word \<times> 64 word \<times> gpio_v2_line_info" where
  "get_gpio_v2_line_info sys d info = ioctl_lineinfo sys d info"

text \<open>The zero values \<^verbatim>\<open>C.struct_gpiochip_info{}\<close> and \<^verbatim>\<open>C.struct_gpio_v2_line_info{}\<close>.\<close>

definition zero_attribute :: gpio_v2_line_attribute where
  "zero_attribute = \<lparr>attr_id = 0, attr_padding = 0, attr_union = 0\<rparr>"

definition zero_gpiochip_info :: gpiochip_info where
  "zero_gpiochip_info =
     \<lparr>chip_name = replicate GPIO_MAX_NAME_SIZE NUL,
      chip_label = replicate GPIO_MAX_NAME_SIZE NUL, chip_lines = 0\<rparr>"

definition zero_gpio_v2_line_info :: gpio_v2_line_info where
  "zero_gpio_v2_line_info =
     \<lparr>line_name = replicate GPIO_MAX_NAME_SIZE NUL,
      line_consumer = replicate GPIO_MAX_NAME_SIZE NUL,
      line_offset = 0, line_num_attrs = 0, line_flags = 0,
      line_attrs = replicate GPIO_V2_LINE_NUM_ATTRS_MAX zero_attribute,
      line_padding = replicate 4 0\<rparr>"

fun returns_error :: "'a outcome \<Rightarrow> bool" where
  "returns_error (Fail e) = True"
| "returns_error (Return v) = False"
| "returns_error (Panic msg) = False"
| "returns_error Undefined_read = False"

subsection \<open>The public values and the three entry points\<close>

record GPIOChipInfo =
  ChipInfo_Name :: string
  ChipInfo_Label :: string
  ChipInfo_Lines :: "32 word"

record GPIOLineInfo =
  LineInfo_Name :: string
  LineInfo_Consumer :: string
  LineInfo_Offset :: "32 word"
  LineInfo_Flags :: GPIOLineFlag
  LineInfo_Attributes :: "GPIOLineAttribute list"


text \<open>
  \<^verbatim>\<open>GetChipInfo\<close>. The variable the source calls \<^verbatim>\<open>err\<close> receives the first value of
  the cgo call, the second (\<^verbatim>\<open>errno\<close>) goes to the blank identifier. The conversion
  \<^verbatim>\<open>syscall.Errno(err)\<close> takes a signed 32-bit value to a \<^verbatim>\<open>uintptr\<close>, extending the
  sign. \<^verbatim>\<open>C.int(fd)\<close> keeps the low 32 bits of the descriptor.
\<close>

definition GetChipInfo :: "system \<Rightarrow> GPIO \<Rightarrow> syscall list \<times> GPIOChipInfo outcome" where
  "GetChipInfo sys g =
    (let info = zero_gpiochip_info;
         d = (ucast (Fd (fd g)) :: 32 word);
         (err, errno, info) = get_gpio_chip_info sys d info
     in ([SysIoctl d GPIO_GET_CHIPINFO_IOCTL],
         if err \<noteq> 0 then Fail (Errno (scast err))
         else
           (case C_GoString (chip_name_mem info (memory_beyond sys)) of
              None \<Rightarrow> Undefined_read
            | Some name \<Rightarrow>
               (case C_GoString (chip_label_mem info (memory_beyond sys)) of
                  None \<Rightarrow> Undefined_read
                | Some label \<Rightarrow>
                    Return \<lparr>ChipInfo_Name = name, ChipInfo_Label = label,
                            ChipInfo_Lines = chip_lines info\<rparr>))))"

text \<open>
  The body of the loop of \<^verbatim>\<open>GetLineInfo\<close> for one array element: the value the C helper
  returns, then the \<^verbatim>\<open>switch\<close> on the element's \<^verbatim>\<open>id\<close>, which has no default case.
  \<^verbatim>\<open>uint64(value)\<close> changes nothing, \<^verbatim>\<open>uint32(value)\<close> keeps the low 32 bits.
\<close>

definition GetLineInfo_body ::
  "gpio_v2_line_attribute \<Rightarrow> GPIOLineAttribute list \<Rightarrow> GPIOLineAttribute list" where
  "GetLineInfo_body a attributes =
    (let val = convert_line_attribute a
     in if attr_id a = GPIO_V2_LINE_ATTR_ID_FLAGS
          then attributes @ [GPIOLineAttributeFlags val]
        else if attr_id a = GPIO_V2_LINE_ATTR_ID_OUTPUT_VALUES
          then attributes @ [GPIOLineAttributeOutputValues val]
        else if attr_id a = GPIO_V2_LINE_ATTR_ID_DEBOUNCE
          then attributes @ [GPIOLineAttributeDebounce (ucast val)]
        else attributes)"

text \<open>
  The loop \<^verbatim>\<open>for i := 0; i < nAttrs; i++\<close>. \<^verbatim>\<open>info.attrs\<close> is a Go array, so the index
  expression \<^verbatim>\<open>info.attrs[i]\<close> is checked against the array's length and panics outside
  it. \<open>i\<close> starts at 0 and only grows, so it is a natural number here.
\<close>

function GetLineInfo_loop ::
  "gpio_v2_line_info \<Rightarrow> nat \<Rightarrow> nat \<Rightarrow> GPIOLineAttribute list \<Rightarrow>
   GPIOLineAttribute list outcome" where
  "GetLineInfo_loop info nAttrs i attributes =
    (if i < nAttrs then
       (if i < length (line_attrs info)
        then GetLineInfo_loop info nAttrs (i + 1)
               (GetLineInfo_body (line_attrs info ! i) attributes)
        else Panic ''index out of range'')
     else Return attributes)"
  by pat_completeness auto
termination
  by (relation "measure (\<lambda>(info, nAttrs, i, attributes). nAttrs - i)") auto

declare GetLineInfo_loop.simps [simp del]

text \<open>
  \<^verbatim>\<open>GetLineInfo\<close>. \<^verbatim>\<open>int(info.num_attrs)\<close> is the count itself, Go's \<^verbatim>\<open>int\<close> being
  wider than 32 bits. The loop runs before the two \<^verbatim>\<open>C.GoString\<close> calls of the result.
\<close>

definition GetLineInfo ::
  "system \<Rightarrow> GPIO \<Rightarrow> 32 word \<Rightarrow> syscall list \<times> GPIOLineInfo outcome" where
  "GetLineInfo sys g line =
    (let info = zero_gpio_v2_line_info\<lparr>line_offset := line\<rparr>;
         d = (ucast (Fd (fd g)) :: 32 word);
         (err, errno, info) = get_gpio_v2_line_info sys d info
     in ([SysIoctl d GPIO_V2_GET_LINEINFO_IOCTL],
         if err \<noteq> 0 then Fail (Errno (scast err))
         else
           (let nAttrs = unat (line_num_attrs info)
            in case GetLineInfo_loop info nAttrs 0 [] of
                 Return attributes \<Rightarrow>
                   (case C_GoString (line_name_mem info (memory_beyond sys)) of
                      None \<Rightarrow> Undefined_read
                    | Some name \<Rightarrow>
                       (case C_GoString (line_consumer_mem info (memory_beyond sys)) of
                          None \<Rightarrow> Undefined_read
                        | Some consumer \<Rightarrow>
                            Return \<lparr>LineInfo_Name = name, LineInfo_Consumer = consumer,
                                    LineInfo_Offset = line_offset info,
                                    LineInfo_Flags = line_flags info,
                                    LineInfo_Attributes = attributes\<rparr>))
               | Fail e \<Rightarrow> Fail e
               | Panic msg \<Rightarrow> Panic msg
               | Undefined_read \<Rightarrow> Undefined_read)))"

text \<open>
  The attribute decoder as the specification words it: one raw entry gives one variant, or
  nothing for a tag other than 1, 2 and 3.
\<close>

definition decode_attribute_spec :: "gpio_v2_line_attribute \<Rightarrow> GPIOLineAttribute option" where
  "decode_attribute_spec a =
    (if attr_id a = 1 then Some (GPIOLineAttributeFlags (attr_union a))
     else if attr_id a = 2 then Some (GPIOLineAttributeOutputValues (attr_union a))
     else if attr_id a = 3 then Some (GPIOLineAttributeDebounce (ucast (attr_union a)))
     else None)"

subsection \<open>Opening a path on Linux\<close>









subsection \<open>Concrete inputs\<close>

text \<open>A text in a buffer of the given capacity, the unused bytes zero.\<close>

definition c_buffer :: "nat \<Rightarrow> string \<Rightarrow> string" where
  "c_buffer capacity s = s @ replicate (capacity - length s) NUL"

definition bcm2835_chip :: gpiochip_info where
  "bcm2835_chip =
     \<lparr>chip_name = c_buffer GPIO_MAX_NAME_SIZE ''gpiochip0'',
      chip_label = c_buffer GPIO_MAX_NAME_SIZE ''pinctrl-bcm2835'',
      chip_lines = 54\<rparr>"

definition two_entry_line :: gpio_v2_line_info where
  "two_entry_line =
     \<lparr>line_name = c_buffer GPIO_MAX_NAME_SIZE ''GPIO17'',
      line_consumer = c_buffer GPIO_MAX_NAME_SIZE ''led'',
      line_offset = 17, line_num_attrs = 2, line_flags = 0x9,
      line_attrs =
        [\<lparr>attr_id = 1, attr_padding = 0, attr_union = 0x0C\<rparr>,
         \<lparr>attr_id = 99, attr_padding = 0, attr_union = 0xFF\<rparr>] @ replicate 8 zero_attribute,
      line_padding = replicate 4 0\<rparr>"

text \<open>The same reply with a count of eleven, one more than the array holds.\<close>

definition eleven_attr_line :: gpio_v2_line_info where
  "eleven_attr_line = two_entry_line\<lparr>line_num_attrs := 11\<rparr>"


text \<open>
  A system whose only device is \<^verbatim>\<open>/dev/gpiochip0\<close> and whose two requests succeed with
  the given structs.
\<close>

definition system_with :: "gpiochip_info \<Rightarrow> gpio_v2_line_info \<Rightarrow> system" where
  "system_with chip line =
     \<lparr>os_OpenFile = (\<lambda>path flag perm.
         if path = ''/dev/gpiochip0'' then Inr \<lparr>Fd = 3\<rparr>
         else Inl (PathError ''open'' path 2)),
      ioctl_chipinfo = (\<lambda>d info. (0, 0, chip)),
      ioctl_lineinfo = (\<lambda>d info. (0, 0, line)),
      memory_beyond = replicate 16 NUL\<rparr>"

text \<open>A system whose two requests fail with status \<open>-1\<close> and the given \<^verbatim>\<open>errno\<close>.\<close>

definition system_failing :: "64 word \<Rightarrow> system" where
  "system_failing e =
     \<lparr>os_OpenFile = (\<lambda>path flag perm. Inr \<lparr>Fd = 3\<rparr>),
      ioctl_chipinfo = (\<lambda>d info. (- 1, e, info)),
      ioctl_lineinfo = (\<lambda>d info. (- 1, e, info)),
      memory_beyond = replicate 16 NUL\<rparr>"

definition gpio3 :: GPIO where
  "gpio3 = \<lparr>fd = \<lparr>Fd = 3\<rparr>\<rparr>"

definition ENODEV :: "64 word" where
  "ENODEV = 19"

definition ENOTTY :: "64 word" where
  "ENOTTY = 25"

text \<open>The chip reply with a name buffer that holds no zero byte.\<close>

definition unterminated_chip :: gpiochip_info where
  "unterminated_chip =
     bcm2835_chip\<lparr>chip_name := replicate GPIO_MAX_NAME_SIZE (CHR ''a'')\<rparr>"





section \<open>Properties\<close>

subsection \<open>Rendering walks the flag table\<close>

lemmas GPIOLineFlag_defs =
  GPIOLineFlagUsed_def GPIOLineFlagActiveLow_def GPIOLineFlagInput_def
  GPIOLineFlagOutput_def GPIOLineFlagEdgeRising_def GPIOLineFlagEdgeFalling_def
  GPIOLineFlagOpenDrain_def GPIOLineFlagOpenSource_def GPIOLineFlagBiasPullUp_def
  GPIOLineFlagBiasPullDown_def GPIOLineFlagBiasDisabled_def
  GPIOLineFlagEventClockRealtime_def GPIOLineFlagEventClockHTE_def

lemma names_of_filter:
  "map snd (filter (\<lambda>(f, n). P f) xs) = concat (map (\<lambda>(f, n). if P f then [n] else []) xs)"
  by (induction xs) auto

lemma if_append_right: "(if c then xs @ ys else xs) = xs @ (if c then ys else [])"
  by simp

lemma String_flags_appended:
  "String flag =
    (let flags = concat (map (\<lambda>(f, n). if flag AND f \<noteq> 0 then [n] else []) flag_table)
     in if length flags = 0 then ''None'' else strings_Join flags ''|'')"
proof -
  have lhs: "String flag =
    (let flags = (((((((((((([] @ (if flag AND GPIOLineFlagUsed \<noteq> 0 then [''Used''] else []))
        @ (if flag AND GPIOLineFlagActiveLow \<noteq> 0 then [''ActiveLow''] else []))
        @ (if flag AND GPIOLineFlagInput \<noteq> 0 then [''Input''] else []))
        @ (if flag AND GPIOLineFlagOutput \<noteq> 0 then [''Output''] else []))
        @ (if flag AND GPIOLineFlagEdgeRising \<noteq> 0 then [''EdgeRising''] else []))
        @ (if flag AND GPIOLineFlagEdgeFalling \<noteq> 0 then [''EdgeFalling''] else []))
        @ (if flag AND GPIOLineFlagOpenDrain \<noteq> 0 then [''OpenDrain''] else []))
        @ (if flag AND GPIOLineFlagOpenSource \<noteq> 0 then [''OpenSource''] else []))
        @ (if flag AND GPIOLineFlagBiasPullUp \<noteq> 0 then [''BiasPullUp''] else []))
        @ (if flag AND GPIOLineFlagBiasPullDown \<noteq> 0 then [''BiasPullDown''] else []))
        @ (if flag AND GPIOLineFlagBiasDisabled \<noteq> 0 then [''BiasDisabled''] else []))
        @ (if flag AND GPIOLineFlagEventClockRealtime \<noteq> 0 then [''EventClockRealtime''] else []))
        @ (if flag AND GPIOLineFlagEventClockHTE \<noteq> 0 then [''EventClockHTE''] else [])
     in if length flags = 0 then ''None'' else strings_Join flags ''|'')"
    unfolding String_def by (simp only: Let_def if_append_right)
  show ?thesis
    unfolding lhs flag_table_def
    by (simp only: list.map prod.case concat.simps append_Nil append_Nil2 append_assoc)
qed

lemma String_flag_table: "String flag = render_spec flag"
  unfolding String_flags_appended render_spec_def set_names_def names_of_filter Let_def
  by (simp only: length_0_conv)

subsection \<open>The named bits decide the rendering\<close>

lemma GPIOLineFlag_values:
  "GPIOLineFlagUsed = 0x1" "GPIOLineFlagActiveLow = 0x2" "GPIOLineFlagInput = 0x4"
  "GPIOLineFlagOutput = 0x8" "GPIOLineFlagEdgeRising = 0x10" "GPIOLineFlagEdgeFalling = 0x20"
  "GPIOLineFlagOpenDrain = 0x40" "GPIOLineFlagOpenSource = 0x80" "GPIOLineFlagBiasPullUp = 0x100"
  "GPIOLineFlagBiasPullDown = 0x200" "GPIOLineFlagBiasDisabled = 0x400"
  "GPIOLineFlagEventClockRealtime = 0x800" "GPIOLineFlagEventClockHTE = 0x1000"
  by (simp_all add: GPIOLineFlag_defs)

lemma named_bits_value: "named_bits = 0x1FFF"
  by (simp add: named_bits_def flag_table_def GPIOLineFlag_values)

lemma masked_flag:
  "(flag AND 0x1FFF) AND GPIOLineFlagUsed = flag AND GPIOLineFlagUsed"
  "(flag AND 0x1FFF) AND GPIOLineFlagActiveLow = flag AND GPIOLineFlagActiveLow"
  "(flag AND 0x1FFF) AND GPIOLineFlagInput = flag AND GPIOLineFlagInput"
  "(flag AND 0x1FFF) AND GPIOLineFlagOutput = flag AND GPIOLineFlagOutput"
  "(flag AND 0x1FFF) AND GPIOLineFlagEdgeRising = flag AND GPIOLineFlagEdgeRising"
  "(flag AND 0x1FFF) AND GPIOLineFlagEdgeFalling = flag AND GPIOLineFlagEdgeFalling"
  "(flag AND 0x1FFF) AND GPIOLineFlagOpenDrain = flag AND GPIOLineFlagOpenDrain"
  "(flag AND 0x1FFF) AND GPIOLineFlagOpenSource = flag AND GPIOLineFlagOpenSource"
  "(flag AND 0x1FFF) AND GPIOLineFlagBiasPullUp = flag AND GPIOLineFlagBiasPullUp"
  "(flag AND 0x1FFF) AND GPIOLineFlagBiasPullDown = flag AND GPIOLineFlagBiasPullDown"
  "(flag AND 0x1FFF) AND GPIOLineFlagBiasDisabled = flag AND GPIOLineFlagBiasDisabled"
  "(flag AND 0x1FFF) AND GPIOLineFlagEventClockRealtime = flag AND GPIOLineFlagEventClockRealtime"
  "(flag AND 0x1FFF) AND GPIOLineFlagEventClockHTE = flag AND GPIOLineFlagEventClockHTE"
  by (simp_all add: GPIOLineFlag_defs and.assoc)

lemma String_masked: "String (flag AND 0x1FFF) = String flag"
  by (simp only: String_def masked_flag)

lemma mod_is_mask: "(flag :: 64 word) mod 2 ^ 13 = flag AND 0x1FFF"
proof -
  have "flag mod 2 ^ 13 = take_bit 13 flag" by (simp only: take_bit_eq_mod)
  also have "\<dots> = flag AND mask 13" by (simp only: take_bit_eq_mask)
  also have "mask 13 = (0x1FFF :: 64 word)" by (simp add: mask_eq_exp_minus_1)
  finally show ?thesis .
qed

lemma String_zero: "String 0 = ''None''"
  by (simp add: String_def)

lemma String_table_entries: "map (String \<circ> fst) flag_table = map snd flag_table"
  apply (simp only: flag_table_def GPIOLineFlag_values list.map comp_apply fst_conv snd_conv)
  apply (simp add: String_def GPIOLineFlag_values)
  done

lemma String_single: "(f, n) \<in> set flag_table \<Longrightarrow> String f = n"
  using String_table_entries unfolding map_eq_conv by fastforce

subsection \<open>Reading a rendering back\<close>

lemma split_on_nonempty: "split_on c s \<noteq> []"
  by (induction s) (auto simp: Let_def)

lemma split_on_no_sep: "c \<notin> set e \<Longrightarrow> split_on c e = [e]"
  by (induction e) (auto simp: Let_def)

lemma split_on_first: "c \<notin> set e \<Longrightarrow> split_on c (e @ c # rest) = e # split_on c rest"
  by (induction e) (auto simp: Let_def)

lemma split_on_Join:
  "xs \<noteq> [] \<Longrightarrow> \<forall>x\<in>set xs. c \<notin> set x \<Longrightarrow> split_on c (strings_Join xs [c]) = xs"
  by (induction xs "[c]" rule: strings_Join.induct) (auto simp: split_on_no_sep split_on_first)

lemma filter_by_names:
  assumes "distinct (map snd tbl)"
  shows "filter (\<lambda>(f, n). n \<in> set (map snd (filter P tbl))) tbl = filter P tbl"
proof (rule filter_cong[OF refl])
  fix x assume x: "x \<in> set tbl"
  obtain f n where fn: "x = (f, n)" by (cases x)
  from assms have inj: "inj_on snd (set tbl)" by (simp add: distinct_map)
  show "(case x of (f, n) \<Rightarrow> n \<in> set (map snd (filter P tbl))) = P x"
  proof
    assume "case x of (f, n) \<Rightarrow> n \<in> set (map snd (filter P tbl))"
    then obtain y where y: "y \<in> set tbl" "P y" "snd y = n" using fn by auto
    have "y = x" using inj_onD[OF inj _ y(1) x] y(3) fn by simp
    with y show "P x" by simp
  next
    assume "P x" with x fn show "case x of (f, n) \<Rightarrow> n \<in> set (map snd (filter P tbl))"
      by force
  qed
qed

lemma flag_names_distinct: "distinct (map snd flag_table)"
  by (simp add: flag_table_def)

lemma flag_names_no_bar: "\<forall>n\<in>set (map snd flag_table). CHR ''|'' \<notin> set n"
  by (simp add: flag_table_def)

lemma None_not_flag_name: "''None'' \<notin> set (map snd flag_table)"
  by (simp add: flag_table_def)

lemma set_names_subset: "set (set_names flag) \<subseteq> set (map snd flag_table)"
  by (auto simp: set_names_def)

lemma read_flags_String: "read_flags (String m) = filter (\<lambda>f. m AND f \<noteq> 0) (map fst flag_table)"
proof (cases "set_names m = []")
  case True
  then have "filter (\<lambda>(f, n). m AND f \<noteq> 0) flag_table = []" by (simp add: set_names_def)
  then have "filter (\<lambda>f. m AND f \<noteq> 0) (map fst flag_table) = []"
    by (simp add: filter_map comp_def case_prod_unfold)
  with True show ?thesis by (simp add: String_flag_table render_spec_def read_flags_def)
next
  case False
  have nobar: "\<forall>x\<in>set (set_names m). CHR ''|'' \<notin> set x"
    using set_names_subset flag_names_no_bar by blast
  have split: "split_on (CHR ''|'') (strings_Join (set_names m) ''|'') = set_names m"
    using split_on_Join[OF False nobar] .
  have notNone: "strings_Join (set_names m) ''|'' \<noteq> ''None''"
  proof
    assume "strings_Join (set_names m) ''|'' = ''None''"
    with split have "set_names m = split_on (CHR ''|'') ''None''" by simp
    also have "\<dots> = [''None'']" by (simp add: split_on_no_sep)
    finally have "''None'' \<in> set (set_names m)" by simp
    with set_names_subset None_not_flag_name show False by blast
  qed
  have "read_flags (String m) =
      map fst (filter (\<lambda>(f, n). n \<in> set (set_names m)) flag_table)"
    using False notNone split by (simp add: String_flag_table render_spec_def read_flags_def)
  also have "\<dots> = map fst (filter (\<lambda>(f, n). m AND f \<noteq> 0) flag_table)"
    unfolding set_names_def using filter_by_names[OF flag_names_distinct] by simp
  also have "\<dots> = filter (\<lambda>f. m AND f \<noteq> 0) (map fst flag_table)"
    by (simp add: filter_map comp_def case_prod_unfold)
  finally show ?thesis .
qed

subsection \<open>Text fields\<close>

lemma u32_bytes_low_byte_first: "u32_bytes 0x64636261 = ''abcd''"
  by (simp add: u32_bytes_def char_of_byte_def)


lemma C_GoString_terminated:
  "NUL \<in> set buf \<Longrightarrow> C_GoString (buf @ behind) = Some (takeWhile (\<lambda>c. c \<noteq> NUL) buf)"
  by (simp add: C_GoString_def takeWhile_append1 split: if_splits)

lemma takeWhile_through:
  "NUL \<notin> set s \<Longrightarrow>
   takeWhile (\<lambda>c. c \<noteq> NUL) (s @ t) = s @ takeWhile (\<lambda>c. c \<noteq> NUL) t"
  by (induction s) auto

lemma C_GoString_unterminated:
  "NUL \<notin> set buf \<Longrightarrow> C_GoString (buf @ behind) = map_option ((@) buf) (C_GoString behind)"
  by (simp add: C_GoString_def takeWhile_through)

lemma fixed_buffer_text_whole:
  "length buf \<le> capacity \<Longrightarrow> fixed_buffer_text capacity buf = takeWhile (\<lambda>c. c \<noteq> NUL) buf"
  by (simp add: fixed_buffer_text_def)

lemma c_buffer_has_NUL: "length s < capacity \<Longrightarrow> NUL \<in> set (c_buffer capacity s)"
  by (simp add: c_buffer_def)

lemma length_c_buffer: "length s \<le> capacity \<Longrightarrow> length (c_buffer capacity s) = capacity"
  by (simp add: c_buffer_def)

lemma takeWhile_c_buffer:
  "NUL \<notin> set s \<Longrightarrow> takeWhile (\<lambda>c. c \<noteq> NUL) (c_buffer capacity s) = s"
  by (simp add: c_buffer_def takeWhile_through)

subsection \<open>The attribute loop\<close>

lemma low_half_kept:
  "(ucast (ucast (ucast w :: 32 word) :: 64 word) :: 32 word) = ucast (w :: 64 word)"
  by (rule bit_word_eqI) (auto simp: bit_simps)

lemma GetLineInfo_body_spec:
  "GetLineInfo_body a attributes =
     attributes @ (case decode_attribute_spec a of None \<Rightarrow> [] | Some v \<Rightarrow> [v])"
  by (simp add: GetLineInfo_body_def decode_attribute_spec_def convert_line_attribute_def
      attr_flags_def attr_values_def attr_debounce_period_us_def
      GPIO_V2_LINE_ATTR_ID_FLAGS_def GPIO_V2_LINE_ATTR_ID_OUTPUT_VALUES_def
      GPIO_V2_LINE_ATTR_ID_DEBOUNCE_def low_half_kept)

lemma GetLineInfo_loop_from:
  "nAttrs \<le> length (line_attrs info) \<Longrightarrow> i \<le> nAttrs \<Longrightarrow>
   GetLineInfo_loop info nAttrs i attributes =
     Return (attributes @
       List.map_filter decode_attribute_spec (take (nAttrs - i) (drop i (line_attrs info))))"
proof (induction info nAttrs i attributes rule: GetLineInfo_loop.induct)
  case (1 info nAttrs i attributes)
  show ?case
  proof (cases "i < nAttrs")
    case False
    with "1.prems" have "i = nAttrs" by simp
    then show ?thesis
      by (subst GetLineInfo_loop.simps) simp
  next
    case True
    with "1.prems" have inside: "i < length (line_attrs info)" by simp
    have step: "take (nAttrs - i) (drop i (line_attrs info)) =
        line_attrs info ! i # take (nAttrs - (i + 1)) (drop (i + 1) (line_attrs info))"
    proof -
      from True have "nAttrs - i = Suc (nAttrs - (i + 1))" by simp
      moreover have "drop i (line_attrs info) = line_attrs info ! i # drop (i + 1) (line_attrs info)"
        using inside by (simp add: Cons_nth_drop_Suc)
      ultimately show ?thesis by simp
    qed
    have "GetLineInfo_loop info nAttrs i attributes =
        GetLineInfo_loop info nAttrs (i + 1) (GetLineInfo_body (line_attrs info ! i) attributes)"
      using True inside by (subst GetLineInfo_loop.simps) simp
    also have "\<dots> = Return (GetLineInfo_body (line_attrs info ! i) attributes @
        List.map_filter decode_attribute_spec
          (take (nAttrs - (i + 1)) (drop (i + 1) (line_attrs info))))"
      using "1.IH"[OF True inside] "1.prems" True by simp
    finally show ?thesis
      by (simp add: step GetLineInfo_body_spec split: option.splits)
  qed
qed

lemma GetLineInfo_loop_overrun:
  "length (line_attrs info) < nAttrs \<Longrightarrow> i \<le> length (line_attrs info) \<Longrightarrow>
   GetLineInfo_loop info nAttrs i attributes = Panic ''index out of range''"
proof (induction info nAttrs i attributes rule: GetLineInfo_loop.induct)
  case (1 info nAttrs i attributes)
  show ?case
  proof (cases "i < length (line_attrs info)")
    case False
    with "1.prems" show ?thesis by (subst GetLineInfo_loop.simps) simp
  next
    case True
    with "1.prems" have lt: "i < nAttrs" by simp
    have "GetLineInfo_loop info nAttrs i attributes =
        GetLineInfo_loop info nAttrs (i + 1) (GetLineInfo_body (line_attrs info ! i) attributes)"
      using True lt by (subst GetLineInfo_loop.simps) simp
    also have "\<dots> = Panic ''index out of range''"
      using "1.IH"[OF lt True] "1.prems" True by simp
    finally show ?thesis .
  qed
qed

lemma length_map_filter_le: "length (List.map_filter f xs) \<le> length xs"
  by (simp add: List.map_filter_def)

lemma length_map_filter_decode:
  "length (List.map_filter decode_attribute_spec xs) =
   length (filter (\<lambda>a. attr_id a \<in> {1, 2, 3}) xs)"
  by (induction xs) (auto simp: decode_attribute_spec_def)

lemma GetLineInfo_loop_all:
  "nAttrs \<le> length (line_attrs info) \<Longrightarrow>
   GetLineInfo_loop info nAttrs 0 [] =
     Return (List.map_filter decode_attribute_spec (take nAttrs (line_attrs info)))"
  using GetLineInfo_loop_from [of nAttrs info 0 "[]"] by simp

lemma GetLineInfo_loop_cases:
  "GetLineInfo_loop info nAttrs 0 [] =
    (if nAttrs \<le> length (line_attrs info)
     then Return (List.map_filter decode_attribute_spec (take nAttrs (line_attrs info)))
     else Panic ''index out of range'')"
  using GetLineInfo_loop_all [of nAttrs info] GetLineInfo_loop_overrun [of info nAttrs 0 "[]"]
  by simp

lemma two_entry_line_facts:
  "line_num_attrs two_entry_line = 2"
  "length (line_attrs two_entry_line) = 10"
  "take 2 (line_attrs two_entry_line) =
     [\<lparr>attr_id = 1, attr_padding = 0, attr_union = 0x0C\<rparr>,
      \<lparr>attr_id = 99, attr_padding = 0, attr_union = 0xFF\<rparr>]"
  by (simp_all add: two_entry_line_def)

subsection \<open>The entry points, once the kernel has answered\<close>

lemma GetLineInfo_unfold:
  assumes "ioctl_lineinfo sys (ucast (Fd (fd g))) (zero_gpio_v2_line_info\<lparr>line_offset := line\<rparr>) =
             (err, e, info)"
  shows "GetLineInfo sys g line =
    ([SysIoctl (ucast (Fd (fd g))) GPIO_V2_GET_LINEINFO_IOCTL],
     if err \<noteq> 0 then Fail (Errno (scast err))
     else
       (case GetLineInfo_loop info (unat (line_num_attrs info)) 0 [] of
          Return attributes \<Rightarrow>
            (case C_GoString (line_name_mem info (memory_beyond sys)) of
               None \<Rightarrow> Undefined_read
             | Some name \<Rightarrow>
                (case C_GoString (line_consumer_mem info (memory_beyond sys)) of
                   None \<Rightarrow> Undefined_read
                 | Some consumer \<Rightarrow>
                     Return \<lparr>LineInfo_Name = name, LineInfo_Consumer = consumer,
                             LineInfo_Offset = line_offset info,
                             LineInfo_Flags = line_flags info,
                             LineInfo_Attributes = attributes\<rparr>))
        | Fail e \<Rightarrow> Fail e
        | Panic msg \<Rightarrow> Panic msg
        | Undefined_read \<Rightarrow> Undefined_read))"
  using assms by (simp add: GetLineInfo_def get_gpio_v2_line_info_def Let_def)

lemma GetChipInfo_unfold:
  assumes "ioctl_chipinfo sys (ucast (Fd (fd g))) zero_gpiochip_info = (err, e, info)"
  shows "GetChipInfo sys g =
    ([SysIoctl (ucast (Fd (fd g))) GPIO_GET_CHIPINFO_IOCTL],
     if err \<noteq> 0 then Fail (Errno (scast err))
     else
       (case C_GoString (chip_name_mem info (memory_beyond sys)) of
          None \<Rightarrow> Undefined_read
        | Some name \<Rightarrow>
           (case C_GoString (chip_label_mem info (memory_beyond sys)) of
              None \<Rightarrow> Undefined_read
            | Some label \<Rightarrow>
                Return \<lparr>ChipInfo_Name = name, ChipInfo_Label = label,
                        ChipInfo_Lines = chip_lines info\<rparr>)))"
  using assms by (simp add: GetChipInfo_def get_gpio_chip_info_def Let_def)

lemma GetLineInfo_Return_attributes:
  assumes reply: "ioctl_lineinfo sys (ucast (Fd (fd g)))
                    (zero_gpio_v2_line_info\<lparr>line_offset := line\<rparr>) = (err, e, info)"
    and ret: "snd (GetLineInfo sys g line) = Return li"
  shows "GetLineInfo_loop info (unat (line_num_attrs info)) 0 [] =
           Return (LineInfo_Attributes li)"
  using ret unfolding GetLineInfo_unfold [OF reply]
  by (auto split: if_splits outcome.splits option.splits)

lemma system_with_replies:
  "ioctl_lineinfo (system_with chip info) d z = (0, 0, info)"
  "ioctl_chipinfo (system_with chip info) d' z' = (0, 0, chip)"
  "memory_beyond (system_with chip info) = replicate 16 NUL"
  by (simp_all add: system_with_def)

lemma two_entry_line_wf: "wf_gpio_v2_line_info two_entry_line"
  by (simp add: two_entry_line_def wf_gpio_v2_line_info_def length_c_buffer
      GPIO_MAX_NAME_SIZE_def GPIO_V2_LINE_NUM_ATTRS_MAX_def)

lemma eleven_attr_line_facts:
  "wf_gpio_v2_line_info eleven_attr_line"
  "unat (line_num_attrs eleven_attr_line) = 11"
  by (simp_all add: eleven_attr_line_def two_entry_line_def wf_gpio_v2_line_info_def
      length_c_buffer GPIO_MAX_NAME_SIZE_def GPIO_V2_LINE_NUM_ATTRS_MAX_def)

lemma C_GoString_c_buffer:
  "NUL \<notin> set s \<Longrightarrow> length s < capacity \<Longrightarrow>
   C_GoString (c_buffer capacity s @ behind) = Some s"
  by (simp add: C_GoString_terminated c_buffer_has_NUL takeWhile_c_buffer)

lemma GPIO17_decoded:
  "snd (GetLineInfo (system_with bcm2835_chip two_entry_line) gpio3 17) =
     Return \<lparr>LineInfo_Name = ''GPIO17'', LineInfo_Consumer = ''led'', LineInfo_Offset = 17,
             LineInfo_Flags = 0x9, LineInfo_Attributes = [GPIOLineAttributeFlags 0x0C]\<rparr>"
proof -
  have loop: "GetLineInfo_loop two_entry_line 2 0 [] = Return [GPIOLineAttributeFlags 0x0C]"
    by (simp add: GetLineInfo_loop_cases two_entry_line_facts decode_attribute_spec_def)
  have name: "C_GoString (line_name_mem two_entry_line beyond) = Some ''GPIO17''" for beyond
    unfolding line_name_mem_def
    by (simp add: two_entry_line_def C_GoString_c_buffer GPIO_MAX_NAME_SIZE_def NUL_def)
  have consumer: "C_GoString (line_consumer_mem two_entry_line beyond) = Some ''led''" for beyond
    unfolding line_consumer_mem_def
    by (simp add: two_entry_line_def C_GoString_c_buffer GPIO_MAX_NAME_SIZE_def NUL_def)
  show ?thesis
    unfolding GetLineInfo_unfold [OF system_with_replies(1)]
    by (simp add: two_entry_line_facts loop name consumer) (simp add: two_entry_line_def)
qed


lemma fixed_buffer_text_c_buffer:
  "NUL \<notin> set s \<Longrightarrow> length s \<le> capacity \<Longrightarrow>
   fixed_buffer_text capacity (c_buffer capacity s) = s"
  by (simp add: fixed_buffer_text_whole length_c_buffer takeWhile_c_buffer)

lemma system_failing_replies:
  "ioctl_lineinfo (system_failing e) d z = (- 1, e, z)"
  "ioctl_chipinfo (system_failing e) d' z' = (- 1, e, z')"
  by (simp_all add: system_failing_def)

lemma GetChipInfo_error_is_status:
  assumes "ioctl_chipinfo sys (ucast (Fd (fd g))) zero_gpiochip_info = (err, e, info)"
    and "err \<noteq> 0"
  shows "snd (GetChipInfo sys g) = Fail (Errno (scast err))"
  using assms(2) unfolding GetChipInfo_unfold [OF assms(1)] by simp

lemma bcm2835_chip_facts:
  "wf_gpiochip_info bcm2835_chip"
  "NUL \<in> set (chip_name bcm2835_chip)"
  "NUL \<in> set (chip_label bcm2835_chip)"
  by (simp_all add: bcm2835_chip_def wf_gpiochip_info_def length_c_buffer c_buffer_has_NUL
      GPIO_MAX_NAME_SIZE_def)

lemma String_no_named_bit: "flag AND named_bits = 0 \<Longrightarrow> String flag = ''None''"
  using String_masked [of flag] by (simp add: named_bits_value String_zero)

lemma String_one_named_bit:
  "(f, n) \<in> set flag_table \<Longrightarrow> flag AND named_bits = f \<Longrightarrow> String flag = n"
  using String_masked [of flag] String_single [of f n] by (simp add: named_bits_value)

subsection \<open>What the entry points return\<close>

lemma GetChipInfo_Return_fields:
  assumes reply: "ioctl_chipinfo sys (ucast (Fd (fd g))) zero_gpiochip_info = (0, e, info)"
    and ret: "snd (GetChipInfo sys g) = Return ci"
  shows "C_GoString (chip_name_mem info (memory_beyond sys)) = Some (ChipInfo_Name ci)"
    and "C_GoString (chip_label_mem info (memory_beyond sys)) = Some (ChipInfo_Label ci)"
    and "ChipInfo_Lines ci = chip_lines info"
  using ret unfolding GetChipInfo_unfold [OF reply]
  by (auto split: option.splits)




lemma GetChipInfo_no_error:
  assumes reply: "ioctl_chipinfo sys (ucast (Fd (fd g))) zero_gpiochip_info = (0, e, info)"
  shows "\<not> returns_error (snd (GetChipInfo sys g))"
    and "snd (GetChipInfo sys g) \<noteq> Panic msg"
  unfolding GetChipInfo_unfold [OF reply] by (simp_all split: option.splits)


lemma GetChipInfo_terminated:
  assumes reply: "ioctl_chipinfo sys (ucast (Fd (fd g))) zero_gpiochip_info = (0, e, info)"
    and name: "NUL \<in> set (chip_name info)"
    and label: "NUL \<in> set (chip_label info)"
  shows "snd (GetChipInfo sys g) =
           Return \<lparr>ChipInfo_Name = takeWhile (\<lambda>c. c \<noteq> NUL) (chip_name info),
                   ChipInfo_Label = takeWhile (\<lambda>c. c \<noteq> NUL) (chip_label info),
                   ChipInfo_Lines = chip_lines info\<rparr>"
  unfolding GetChipInfo_unfold [OF reply] chip_name_mem_def chip_label_mem_def
  by (simp add: C_GoString_terminated [OF name] C_GoString_terminated [OF label])

lemma GetChipInfo_name_unterminated:
  assumes reply: "ioctl_chipinfo sys (ucast (Fd (fd g))) zero_gpiochip_info = (0, e, info)"
    and name: "NUL \<notin> set (chip_name info)"
    and label: "NUL \<in> set (chip_label info)"
  shows "snd (GetChipInfo sys g) =
           Return \<lparr>ChipInfo_Name = chip_name info @ takeWhile (\<lambda>c. c \<noteq> NUL) (chip_label info),
                   ChipInfo_Label = takeWhile (\<lambda>c. c \<noteq> NUL) (chip_label info),
                   ChipInfo_Lines = chip_lines info\<rparr>"
  unfolding GetChipInfo_unfold [OF reply] chip_name_mem_def
  by (simp add: C_GoString_unterminated [OF name])
     (simp add: chip_label_mem_def C_GoString_terminated [OF label])

lemma example_texts_no_NUL:
  "NUL \<notin> set ''gpiochip0''" "NUL \<notin> set ''pinctrl-bcm2835''"
  "NUL \<notin> set ''GPIO17''" "NUL \<notin> set ''led''"
  by (simp_all add: NUL_def)

lemma bcm2835_chip_texts:
  "takeWhile (\<lambda>c. c \<noteq> NUL) (chip_name bcm2835_chip) = ''gpiochip0''"
  "takeWhile (\<lambda>c. c \<noteq> NUL) (chip_label bcm2835_chip) = ''pinctrl-bcm2835''"
  "chip_lines bcm2835_chip = 54"
  by (simp_all add: bcm2835_chip_def takeWhile_c_buffer [OF example_texts_no_NUL(1)]
      takeWhile_c_buffer [OF example_texts_no_NUL(2)])

lemma unterminated_chip_facts:
  "wf_gpiochip_info unterminated_chip"
  "NUL \<notin> set (chip_name unterminated_chip)"
  "NUL \<in> set (chip_label unterminated_chip)"
  "chip_name unterminated_chip = replicate 32 (CHR ''a'')"
  "takeWhile (\<lambda>c. c \<noteq> NUL) (chip_label unterminated_chip) = ''pinctrl-bcm2835''"
  "chip_lines unterminated_chip = 54"
  "fixed_buffer_text GPIO_MAX_NAME_SIZE (chip_label unterminated_chip) = ''pinctrl-bcm2835''"
proof -
  show "wf_gpiochip_info unterminated_chip"
    by (simp add: unterminated_chip_def bcm2835_chip_def wf_gpiochip_info_def length_c_buffer
        GPIO_MAX_NAME_SIZE_def)
  show "NUL \<notin> set (chip_name unterminated_chip)"
    by (simp add: unterminated_chip_def NUL_def)
  show "NUL \<in> set (chip_label unterminated_chip)"
    by (simp add: unterminated_chip_def bcm2835_chip_facts(3))
  show "chip_name unterminated_chip = replicate 32 (CHR ''a'')"
    by (simp add: unterminated_chip_def GPIO_MAX_NAME_SIZE_def)
  show "takeWhile (\<lambda>c. c \<noteq> NUL) (chip_label unterminated_chip) = ''pinctrl-bcm2835''"
    by (simp add: unterminated_chip_def bcm2835_chip_texts(2))
  show "chip_lines unterminated_chip = 54"
    by (simp add: unterminated_chip_def bcm2835_chip_texts(3))
  show "fixed_buffer_text GPIO_MAX_NAME_SIZE (chip_label unterminated_chip) = ''pinctrl-bcm2835''"
    by (simp add: unterminated_chip_def bcm2835_chip_def
        fixed_buffer_text_c_buffer [OF example_texts_no_NUL(2)] GPIO_MAX_NAME_SIZE_def)
qed

lemma unterminated_chip_decoded:
  "snd (GetChipInfo (system_with unterminated_chip info) gpio3) =
     Return \<lparr>ChipInfo_Name = replicate 32 (CHR ''a'') @ ''pinctrl-bcm2835'',
             ChipInfo_Label = ''pinctrl-bcm2835'', ChipInfo_Lines = 54\<rparr>"
  using GetChipInfo_name_unterminated [OF system_with_replies(2) unterminated_chip_facts(2,3)]
  by (simp add: unterminated_chip_facts(4,5,6))












subsection \<open>Opening\<close>




section \<open>The claims\<close>

text \<open>
  C1. Decoding one raw attribute entry follows its tag: tag 1 gives a \<open>Flags\<close> variant
  holding the raw 64-bit payload unchanged, tag 2 an \<open>OutputValues\<close> variant holding the raw
  payload unchanged, tag 3 a \<open>Debounce\<close> variant holding the low 32 bits of the raw payload.
  The entry is decoded by the C helper and one round of the loop of \<^verbatim>\<open>GetLineInfo\<close>.
\<close>

theorem GetLineInfo_body_by_tag:
  "(attr_id a = 1 \<longrightarrow>
      convert_line_attribute a = attr_union a \<and>
      GetLineInfo_body a attributes = attributes @ [GPIOLineAttributeFlags (attr_union a)]) \<and>
   (attr_id a = 2 \<longrightarrow>
      convert_line_attribute a = attr_union a \<and>
      GetLineInfo_body a attributes = attributes @ [GPIOLineAttributeOutputValues (attr_union a)]) \<and>
   (attr_id a = 3 \<longrightarrow>
      GetLineInfo_body a attributes =
        attributes @ [GPIOLineAttributeDebounce (ucast (attr_union a))])"
  by (simp add: GetLineInfo_body_def convert_line_attribute_def
      attr_flags_def attr_values_def attr_debounce_period_us_def
      GPIO_V2_LINE_ATTR_ID_FLAGS_def GPIO_V2_LINE_ATTR_ID_OUTPUT_VALUES_def
      GPIO_V2_LINE_ATTR_ID_DEBOUNCE_def low_half_kept)

theorem GetLineInfo_body_by_tag_witness:
  "GetLineInfo_body \<lparr>attr_id = 1, attr_padding = 0, attr_union = 0x0C\<rparr> [] =
     [GPIOLineAttributeFlags 0x0C] \<and>
   GetLineInfo_body \<lparr>attr_id = 2, attr_padding = 0, attr_union = 0xFFFFFFFF00000001\<rparr> [] =
     [GPIOLineAttributeOutputValues 0xFFFFFFFF00000001] \<and>
   GetLineInfo_body \<lparr>attr_id = 3, attr_padding = 0, attr_union = 0x1200002710\<rparr> [] =
     [GPIOLineAttributeDebounce 0x2710]"
  using GetLineInfo_body_by_tag [of "\<lparr>attr_id = 1, attr_padding = 0, attr_union = 0x0C\<rparr>" "[]"]
    GetLineInfo_body_by_tag
      [of "\<lparr>attr_id = 2, attr_padding = 0, attr_union = 0xFFFFFFFF00000001\<rparr>" "[]"]
    GetLineInfo_body_by_tag [of "\<lparr>attr_id = 3, attr_padding = 0, attr_union = 0x1200002710\<rparr>" "[]"]
  by simp

text \<open>
  C2. With a count \<^verbatim>\<open>num_attrs\<close> within the attribute array, the loop of
  \<^verbatim>\<open>GetLineInfo\<close> decodes the first \<^verbatim>\<open>num_attrs\<close> raw entries in their order, keeps
  every variant it decodes and skips every entry whose tag is not 1, 2 or 3 without failing.
  The attribute sequence has as many elements as there are entries with a tag in \<open>{1,2,3}\<close>
  among the first \<^verbatim>\<open>num_attrs\<close>, at most \<^verbatim>\<open>num_attrs\<close>, and it is the sequence every
  line info returned for this reply carries.
\<close>

theorem GetLineInfo_attributes_in_order:
  assumes "unat (line_num_attrs info) \<le> length (line_attrs info)"
  shows "GetLineInfo_loop info (unat (line_num_attrs info)) 0 [] =
           Return (List.map_filter decode_attribute_spec
                     (take (unat (line_num_attrs info)) (line_attrs info))) \<and>
         length (List.map_filter decode_attribute_spec
                   (take (unat (line_num_attrs info)) (line_attrs info))) =
           length (filter (\<lambda>a. attr_id a \<in> {1, 2, 3})
                     (take (unat (line_num_attrs info)) (line_attrs info))) \<and>
         length (List.map_filter decode_attribute_spec
                   (take (unat (line_num_attrs info)) (line_attrs info))) \<le>
           unat (line_num_attrs info) \<and>
         (\<forall>sys g line e li.
            ioctl_lineinfo sys (ucast (Fd (fd g)))
              (zero_gpio_v2_line_info\<lparr>line_offset := line\<rparr>) = (0, e, info) \<longrightarrow>
            snd (GetLineInfo sys g line) = Return li \<longrightarrow>
            LineInfo_Attributes li =
              List.map_filter decode_attribute_spec
                (take (unat (line_num_attrs info)) (line_attrs info)))"
proof (intro conjI allI impI)
  show loop: "GetLineInfo_loop info (unat (line_num_attrs info)) 0 [] =
          Return (List.map_filter decode_attribute_spec
                    (take (unat (line_num_attrs info)) (line_attrs info)))"
    using assms by (rule GetLineInfo_loop_all)
  show "length (List.map_filter decode_attribute_spec
                  (take (unat (line_num_attrs info)) (line_attrs info))) =
          length (filter (\<lambda>a. attr_id a \<in> {1, 2, 3})
                    (take (unat (line_num_attrs info)) (line_attrs info)))"
    by (rule length_map_filter_decode)
  have "length (List.map_filter decode_attribute_spec
                  (take (unat (line_num_attrs info)) (line_attrs info))) \<le>
          length (take (unat (line_num_attrs info)) (line_attrs info))"
    by (rule length_map_filter_le)
  then show "length (List.map_filter decode_attribute_spec
                  (take (unat (line_num_attrs info)) (line_attrs info))) \<le>
          unat (line_num_attrs info)"
    by simp
  fix sys g line e li
  assume reply: "ioctl_lineinfo sys (ucast (Fd (fd g)))
              (zero_gpio_v2_line_info\<lparr>line_offset := line\<rparr>) = (0, e, info)"
    and ret: "snd (GetLineInfo sys g line) = Return li"
  from GetLineInfo_Return_attributes [OF reply ret] loop
  show "LineInfo_Attributes li =
      List.map_filter decode_attribute_spec
        (take (unat (line_num_attrs info)) (line_attrs info))"
    by simp
qed

theorem GetLineInfo_attributes_in_order_witness:
  "unat (line_num_attrs two_entry_line) \<le> length (line_attrs two_entry_line) \<and>
   GetLineInfo_loop two_entry_line 2 0 [] = Return [GPIOLineAttributeFlags 0x0C] \<and>
   snd (GetLineInfo (system_with bcm2835_chip two_entry_line) gpio3 17) =
     Return \<lparr>LineInfo_Name = ''GPIO17'', LineInfo_Consumer = ''led'', LineInfo_Offset = 17,
             LineInfo_Flags = 0x9, LineInfo_Attributes = [GPIOLineAttributeFlags 0x0C]\<rparr>"
  using GetLineInfo_attributes_in_order [of two_entry_line] GPIO17_decoded
  by (simp add: two_entry_line_facts decode_attribute_spec_def)




text \<open>
  C8, as the code has it. A line info that is returned carries at most
  \<^verbatim>\<open>GPIO_V2_LINE_NUM_ATTRS_MAX\<close> attributes. After a successful request whose count
  exceeds the array, \<^verbatim>\<open>GetLineInfo\<close> returns neither a line info nor an error: the
  checked index expression stops it with a run-time panic when the index reaches the
  array's length, and nothing outside the array is read.
\<close>

theorem GetLineInfo_attribute_bound:
  assumes reply: "ioctl_lineinfo sys (ucast (Fd (fd g)))
                    (zero_gpio_v2_line_info\<lparr>line_offset := line\<rparr>) = (err, e, info)"
    and wf: "wf_gpio_v2_line_info info"
  shows "(\<forall>li. snd (GetLineInfo sys g line) = Return li \<longrightarrow>
            length (LineInfo_Attributes li) \<le> GPIO_V2_LINE_NUM_ATTRS_MAX) \<and>
         (err = 0 \<and> GPIO_V2_LINE_NUM_ATTRS_MAX < unat (line_num_attrs info) \<longrightarrow>
            snd (GetLineInfo sys g line) = Panic ''index out of range'')"
proof (intro conjI allI impI)
  from wf have len: "length (line_attrs info) = GPIO_V2_LINE_NUM_ATTRS_MAX"
    by (simp add: wf_gpio_v2_line_info_def)
  {
    fix li assume "snd (GetLineInfo sys g line) = Return li"
    then have loop: "GetLineInfo_loop info (unat (line_num_attrs info)) 0 [] =
        Return (LineInfo_Attributes li)"
      by (rule GetLineInfo_Return_attributes [OF reply])
    then have "LineInfo_Attributes li = List.map_filter decode_attribute_spec
        (take (unat (line_num_attrs info)) (line_attrs info))"
      by (simp add: GetLineInfo_loop_cases split: if_splits)
    then have "length (LineInfo_Attributes li) \<le>
        length (take (unat (line_num_attrs info)) (line_attrs info))"
      by (simp only: length_map_filter_le)
    then show "length (LineInfo_Attributes li) \<le> GPIO_V2_LINE_NUM_ATTRS_MAX"
      using len by simp
  }
  {
    assume "err = 0 \<and> GPIO_V2_LINE_NUM_ATTRS_MAX < unat (line_num_attrs info)"
    then show "snd (GetLineInfo sys g line) = Panic ''index out of range''"
      unfolding GetLineInfo_unfold [OF reply] using len
      by (simp add: GetLineInfo_loop_cases)
  }
qed

theorem GetLineInfo_attribute_bound_witness:
  "wf_gpio_v2_line_info eleven_attr_line \<and>
   GPIO_V2_LINE_NUM_ATTRS_MAX < unat (line_num_attrs eleven_attr_line) \<and>
   snd (GetLineInfo (system_with bcm2835_chip eleven_attr_line) gpio3 17) =
     Panic ''index out of range'' \<and>
   wf_gpio_v2_line_info two_entry_line \<and>
   snd (GetLineInfo (system_with bcm2835_chip two_entry_line) gpio3 17) =
     Return \<lparr>LineInfo_Name = ''GPIO17'', LineInfo_Consumer = ''led'', LineInfo_Offset = 17,
             LineInfo_Flags = 0x9, LineInfo_Attributes = [GPIOLineAttributeFlags 0x0C]\<rparr> \<and>
   length [GPIOLineAttributeFlags 0x0C] \<le> GPIO_V2_LINE_NUM_ATTRS_MAX"
proof -
  have eleven: "ioctl_lineinfo (system_with bcm2835_chip eleven_attr_line)
      (ucast (Fd (fd gpio3))) (zero_gpio_v2_line_info\<lparr>line_offset := 17\<rparr>) =
      (0, 0, eleven_attr_line)"
    by (rule system_with_replies)
  have two: "ioctl_lineinfo (system_with bcm2835_chip two_entry_line)
      (ucast (Fd (fd gpio3))) (zero_gpio_v2_line_info\<lparr>line_offset := 17\<rparr>) =
      (0, 0, two_entry_line)"
    by (rule system_with_replies)
  have over: "GPIO_V2_LINE_NUM_ATTRS_MAX < unat (line_num_attrs eleven_attr_line)"
    by (simp add: eleven_attr_line_facts GPIO_V2_LINE_NUM_ATTRS_MAX_def)
  from GetLineInfo_attribute_bound [OF eleven eleven_attr_line_facts(1), THEN conjunct2] over
  have panic: "snd (GetLineInfo (system_with bcm2835_chip eleven_attr_line) gpio3 17) =
      Panic ''index out of range''"
    by simp
  from GetLineInfo_attribute_bound [OF two two_entry_line_wf, THEN conjunct1] GPIO17_decoded
  have "length [GPIOLineAttributeFlags 0x0C] \<le> GPIO_V2_LINE_NUM_ATTRS_MAX"
    by fastforce
  with eleven_attr_line_facts(1) over panic two_entry_line_wf GPIO17_decoded
  show ?thesis by (intro conjI)
qed

text \<open>
  C8 as stated fails: for a reply with a count of eleven the call does not end in an error.
\<close>

theorem GetLineInfo_overrun_is_no_error:
  "GPIO_V2_LINE_NUM_ATTRS_MAX < unat (line_num_attrs eleven_attr_line) \<and>
   \<not> returns_error (snd (GetLineInfo (system_with bcm2835_chip eleven_attr_line) gpio3 17))"
proof -
  have "GetLineInfo_loop eleven_attr_line 11 0 [] = Panic ''index out of range''"
    by (simp add: GetLineInfo_loop_cases eleven_attr_line_def two_entry_line_def)
  then show ?thesis
    by (simp add: GetLineInfo_unfold [OF system_with_replies(1)] eleven_attr_line_facts
        GPIO_V2_LINE_NUM_ATTRS_MAX_def)
qed

text \<open>
  C4 fails on the code. When the request fails, the kernel's \<^verbatim>\<open>errno\<close> is the second
  value of the cgo call, which \<^verbatim>\<open>GetChipInfo\<close> and \<^verbatim>\<open>GetLineInfo\<close> assign to the blank
  identifier; the error they return wraps the first value, the status \<open>-1\<close>, as an unsigned
  number. With \<^verbatim>\<open>errno\<close> \<open>ENODEV\<close> and with \<^verbatim>\<open>errno\<close> \<open>ENOTTY\<close> the error is the
  same, and it is neither of them.
\<close>

theorem GetChipInfo_GetLineInfo_drop_errno:
  "snd (GetChipInfo (system_failing ENODEV) gpio3) = Fail (Errno 0xFFFFFFFFFFFFFFFF) \<and>
   snd (GetChipInfo (system_failing ENOTTY) gpio3) = Fail (Errno 0xFFFFFFFFFFFFFFFF) \<and>
   snd (GetLineInfo (system_failing ENODEV) gpio3 99) = Fail (Errno 0xFFFFFFFFFFFFFFFF) \<and>
   snd (GetLineInfo (system_failing ENOTTY) gpio3 99) = Fail (Errno 0xFFFFFFFFFFFFFFFF) \<and>
   Errno ENODEV \<noteq> Errno 0xFFFFFFFFFFFFFFFF \<and> ENODEV \<noteq> ENOTTY"
  unfolding GetChipInfo_unfold [OF system_failing_replies(2)]
    GetLineInfo_unfold [OF system_failing_replies(1)]
  by (simp add: ENODEV_def ENOTTY_def)

text \<open>
  C5. \<^verbatim>\<open>String\<close> lists the names of the named bits that are set, in declaration order and
  separated by \<open>|\<close>; with no named bit set it gives \<open>None\<close>, and with exactly one it gives
  that flag's name alone.
\<close>

theorem String_lists_set_names:
  "String flag =
     (if set_names flag = [] then ''None'' else strings_Join (set_names flag) ''|'') \<and>
   (flag AND named_bits = 0 \<longrightarrow> String flag = ''None'') \<and>
   (\<forall>(f, n)\<in>set flag_table. flag AND named_bits = f \<longrightarrow> String flag = n)"
proof (intro conjI)
  show "String flag =
     (if set_names flag = [] then ''None'' else strings_Join (set_names flag) ''|'')"
    by (simp only: String_flag_table render_spec_def)
  show "flag AND named_bits = 0 \<longrightarrow> String flag = ''None''"
    using String_no_named_bit by blast
  show "\<forall>(f, n)\<in>set flag_table. flag AND named_bits = f \<longrightarrow> String flag = n"
    using String_one_named_bit by blast
qed

theorem String_lists_set_names_witness:
  "String 0x1005 = ''Used|Input|EventClockHTE'' \<and>
   (0xE000 :: GPIOLineFlag) AND named_bits = 0 \<and> String 0xE000 = ''None'' \<and>
   (GPIOLineFlagInput, ''Input'') \<in> set flag_table \<and>
   (0x8004 :: GPIOLineFlag) AND named_bits = GPIOLineFlagInput \<and> String 0x8004 = ''Input''"
proof -
  have names: "set_names 0x1005 = [''Used'', ''Input'', ''EventClockHTE'']"
    unfolding set_names_def flag_table_def GPIOLineFlag_values by simp
  have none: "(0xE000 :: GPIOLineFlag) AND named_bits = 0"
    by (simp add: named_bits_value)
  have entry: "(GPIOLineFlagInput, ''Input'') \<in> set flag_table"
    by (simp add: flag_table_def)
  have one: "(0x8004 :: GPIOLineFlag) AND named_bits = GPIOLineFlagInput"
    by (simp add: named_bits_value GPIOLineFlag_values)
  from String_lists_set_names [of "0x1005", THEN conjunct1] names
  have "String 0x1005 = ''Used|Input|EventClockHTE''" by simp
  moreover from String_lists_set_names [of "0xE000", THEN conjunct2, THEN conjunct1] none
  have "String 0xE000 = ''None''" by (rule mp)
  moreover from
    String_lists_set_names [of "0x8004", THEN conjunct2, THEN conjunct2, THEN bspec, OF entry] one
  have "String 0x8004 = ''Input''" by simp
  ultimately show ?thesis using none entry one by (intro conjI)
qed

text \<open>
  C6. Rendering a mask and reading the rendering back in declaration order gives exactly
  the named flags that are set in the mask.
\<close>

theorem read_flags_String_roundtrip:
  "read_flags (String m) = filter (\<lambda>f. m AND f \<noteq> 0) (map fst flag_table) \<and>
   set (read_flags (String m)) = {f. f \<in> fst ` set flag_table \<and> m AND f \<noteq> 0}"
proof (intro conjI)
  show "read_flags (String m) = filter (\<lambda>f. m AND f \<noteq> 0) (map fst flag_table)"
    by (rule read_flags_String)
  show "set (read_flags (String m)) = {f. f \<in> fst ` set flag_table \<and> m AND f \<noteq> 0}"
    unfolding read_flags_String by auto
qed

theorem read_flags_String_roundtrip_witness:
  "read_flags (String 0x1005) =
     [GPIOLineFlagUsed, GPIOLineFlagInput, GPIOLineFlagEventClockHTE]"
proof -
  have "filter (\<lambda>f. 0x1005 AND f \<noteq> 0) (map fst flag_table) =
      [GPIOLineFlagUsed, GPIOLineFlagInput, GPIOLineFlagEventClockHTE]"
    unfolding flag_table_def GPIOLineFlag_values by simp
  with read_flags_String_roundtrip [of "0x1005", THEN conjunct1] show ?thesis by (simp only:)
qed

text \<open>
  C7, as the code has it. After a successful chip-info request \<^verbatim>\<open>GetChipInfo\<close> returns
  no error, and the line count of what it returns is the raw count. When the name and label
  buffers each hold a zero byte it returns a value whose name and label are the texts of the
  two buffers; the reply \<open>gpiochip0\<close>, \<open>pinctrl-bcm2835\<close>, 54 gives exactly these three
  values. A name buffer without a zero byte is not cut at its capacity: the name is the
  whole buffer followed by the text of the label.
\<close>

theorem GetChipInfo_decodes:
  assumes reply: "ioctl_chipinfo sys (ucast (Fd (fd g))) zero_gpiochip_info = (0, e, info)"
    and wf: "wf_gpiochip_info info"
  shows "\<not> returns_error (snd (GetChipInfo sys g)) \<and>
         (\<forall>ci. snd (GetChipInfo sys g) = Return ci \<longrightarrow> ChipInfo_Lines ci = chip_lines info) \<and>
         (NUL \<in> set (chip_name info) \<and> NUL \<in> set (chip_label info) \<longrightarrow>
            snd (GetChipInfo sys g) =
              Return \<lparr>ChipInfo_Name = fixed_buffer_text GPIO_MAX_NAME_SIZE (chip_name info),
                      ChipInfo_Label = fixed_buffer_text GPIO_MAX_NAME_SIZE (chip_label info),
                      ChipInfo_Lines = chip_lines info\<rparr>) \<and>
         (NUL \<notin> set (chip_name info) \<and> NUL \<in> set (chip_label info) \<longrightarrow>
            snd (GetChipInfo sys g) =
              Return \<lparr>ChipInfo_Name =
                        chip_name info @ fixed_buffer_text GPIO_MAX_NAME_SIZE (chip_label info),
                      ChipInfo_Label = fixed_buffer_text GPIO_MAX_NAME_SIZE (chip_label info),
                      ChipInfo_Lines = chip_lines info\<rparr>) \<and>
         (info = bcm2835_chip \<longrightarrow>
            snd (GetChipInfo sys g) =
              Return \<lparr>ChipInfo_Name = ''gpiochip0'', ChipInfo_Label = ''pinctrl-bcm2835'',
                      ChipInfo_Lines = 54\<rparr>)"
proof (intro conjI allI impI)
  from wf have len: "length (chip_name info) \<le> GPIO_MAX_NAME_SIZE"
    "length (chip_label info) \<le> GPIO_MAX_NAME_SIZE"
    by (simp_all add: wf_gpiochip_info_def)
  note whole = fixed_buffer_text_whole [OF len(1)] fixed_buffer_text_whole [OF len(2)]
  show "\<not> returns_error (snd (GetChipInfo sys g))"
    by (rule GetChipInfo_no_error [OF reply])
  {
    fix ci assume "snd (GetChipInfo sys g) = Return ci"
    then show "ChipInfo_Lines ci = chip_lines info"
      by (rule GetChipInfo_Return_fields(3) [OF reply])
  }
  {
    assume "NUL \<in> set (chip_name info) \<and> NUL \<in> set (chip_label info)"
    then show "snd (GetChipInfo sys g) =
              Return \<lparr>ChipInfo_Name = fixed_buffer_text GPIO_MAX_NAME_SIZE (chip_name info),
                      ChipInfo_Label = fixed_buffer_text GPIO_MAX_NAME_SIZE (chip_label info),
                      ChipInfo_Lines = chip_lines info\<rparr>"
      using GetChipInfo_terminated [OF reply] by (simp add: whole)
  }
  {
    assume "NUL \<notin> set (chip_name info) \<and> NUL \<in> set (chip_label info)"
    then show "snd (GetChipInfo sys g) =
              Return \<lparr>ChipInfo_Name =
                        chip_name info @ fixed_buffer_text GPIO_MAX_NAME_SIZE (chip_label info),
                      ChipInfo_Label = fixed_buffer_text GPIO_MAX_NAME_SIZE (chip_label info),
                      ChipInfo_Lines = chip_lines info\<rparr>"
      using GetChipInfo_name_unterminated [OF reply] by (simp add: whole)
  }
  {
    assume is_bcm: "info = bcm2835_chip"
    from bcm2835_chip_texts GetChipInfo_terminated [OF reply] bcm2835_chip_facts(2,3) is_bcm
    show "snd (GetChipInfo sys g) =
              Return \<lparr>ChipInfo_Name = ''gpiochip0'', ChipInfo_Label = ''pinctrl-bcm2835'',
                      ChipInfo_Lines = 54\<rparr>"
      by simp
  }
qed

theorem GetChipInfo_decodes_witness:
  "wf_gpiochip_info bcm2835_chip \<and> NUL \<in> set (chip_name bcm2835_chip) \<and>
   NUL \<in> set (chip_label bcm2835_chip) \<and>
   snd (GetChipInfo (system_with bcm2835_chip two_entry_line) gpio3) =
     Return \<lparr>ChipInfo_Name = ''gpiochip0'', ChipInfo_Label = ''pinctrl-bcm2835'',
             ChipInfo_Lines = 54\<rparr> \<and>
   wf_gpiochip_info unterminated_chip \<and> NUL \<notin> set (chip_name unterminated_chip) \<and>
   NUL \<in> set (chip_label unterminated_chip) \<and>
   snd (GetChipInfo (system_with unterminated_chip two_entry_line) gpio3) =
     Return \<lparr>ChipInfo_Name = replicate 32 (CHR ''a'') @ ''pinctrl-bcm2835'',
             ChipInfo_Label = ''pinctrl-bcm2835'', ChipInfo_Lines = 54\<rparr>"
proof -
  have reply: "ioctl_chipinfo (system_with bcm2835_chip two_entry_line)
      (ucast (Fd (fd gpio3))) zero_gpiochip_info = (0, 0, bcm2835_chip)"
    by (rule system_with_replies)
  from GetChipInfo_decodes [OF reply bcm2835_chip_facts(1)]
  have one: "snd (GetChipInfo (system_with bcm2835_chip two_entry_line) gpio3) =
     Return \<lparr>ChipInfo_Name = ''gpiochip0'', ChipInfo_Label = ''pinctrl-bcm2835'',
             ChipInfo_Lines = 54\<rparr>"
    by blast
  have reply': "ioctl_chipinfo (system_with unterminated_chip two_entry_line)
      (ucast (Fd (fd gpio3))) zero_gpiochip_info = (0, 0, unterminated_chip)"
    by (rule system_with_replies)
  from GetChipInfo_decodes [OF reply' unterminated_chip_facts(1), THEN conjunct2, THEN conjunct2,
      THEN conjunct2, THEN conjunct1] unterminated_chip_facts(2,3)
  have "snd (GetChipInfo (system_with unterminated_chip two_entry_line) gpio3) =
      Return \<lparr>ChipInfo_Name = chip_name unterminated_chip @
                 fixed_buffer_text GPIO_MAX_NAME_SIZE (chip_label unterminated_chip),
              ChipInfo_Label = fixed_buffer_text GPIO_MAX_NAME_SIZE (chip_label unterminated_chip),
              ChipInfo_Lines = chip_lines unterminated_chip\<rparr>"
    by blast
  then have two: "snd (GetChipInfo (system_with unterminated_chip two_entry_line) gpio3) =
     Return \<lparr>ChipInfo_Name = replicate 32 (CHR ''a'') @ ''pinctrl-bcm2835'',
             ChipInfo_Label = ''pinctrl-bcm2835'', ChipInfo_Lines = 54\<rparr>"
    by (simp only: unterminated_chip_facts(4,6,7))
  from bcm2835_chip_facts one unterminated_chip_facts(1,2,3) two
  show ?thesis by (intro conjI)
qed

text \<open>
  C7 as stated fails: a chip-info reply whose 32-byte name buffer holds no zero byte is
  decoded to a name of 47 bytes, the buffer and the label behind it, where the text of the
  buffer under the capacity rule has 32.
\<close>

theorem GetChipInfo_reads_past_name_buffer:
  "wf_gpiochip_info unterminated_chip \<and>
   snd (GetChipInfo (system_with unterminated_chip two_entry_line) gpio3) =
     Return \<lparr>ChipInfo_Name = replicate 32 (CHR ''a'') @ ''pinctrl-bcm2835'',
             ChipInfo_Label = ''pinctrl-bcm2835'', ChipInfo_Lines = 54\<rparr> \<and>
   fixed_buffer_text GPIO_MAX_NAME_SIZE (chip_name unterminated_chip) =
     replicate 32 (CHR ''a'') \<and>
   replicate 32 (CHR ''a'') @ ''pinctrl-bcm2835'' \<noteq>
     fixed_buffer_text GPIO_MAX_NAME_SIZE (chip_name unterminated_chip)"
proof -
  have bounded: "fixed_buffer_text GPIO_MAX_NAME_SIZE (chip_name unterminated_chip) =
      replicate 32 (CHR ''a'')"
    using unterminated_chip_facts(2)
    by (simp add: fixed_buffer_text_def unterminated_chip_facts(4) GPIO_MAX_NAME_SIZE_def NUL_def)
  have differ: "replicate 32 (CHR ''a'') @ ''pinctrl-bcm2835'' \<noteq>
      fixed_buffer_text GPIO_MAX_NAME_SIZE (chip_name unterminated_chip)"
    unfolding bounded by simp
  from unterminated_chip_facts(1) unterminated_chip_decoded [of two_entry_line] bounded differ
  show ?thesis by (intro conjI)
qed




text \<open>
  C10. Only the thirteen named bits matter to \<^verbatim>\<open>String\<close>: a mask and the mask reduced
  modulo \<open>2^13\<close> render alike, and a mask without any named bit renders as \<open>None\<close>.
\<close>

theorem String_ignores_unnamed_bits:
  "String m = String (m mod 2 ^ 13) \<and>
   (m AND named_bits = 0 \<longrightarrow> String m = ''None'')"
proof (intro conjI)
  show "String m = String (m mod 2 ^ 13)"
    by (simp only: mod_is_mask String_masked)
  show "m AND named_bits = 0 \<longrightarrow> String m = ''None''"
    using String_no_named_bit by blast
qed

theorem String_ignores_unnamed_bits_witness:
  "String 0xE005 = String 0x5 \<and>
   (0xFFFFFFFFFFFFE000 :: GPIOLineFlag) AND named_bits = 0 \<and>
   String 0xFFFFFFFFFFFFE000 = ''None''"
proof -
  have none: "(0xFFFFFFFFFFFFE000 :: GPIOLineFlag) AND named_bits = 0"
    by (simp add: named_bits_value)
  have "(0xE005 :: GPIOLineFlag) mod 2 ^ 13 = 0x5" by simp
  with String_ignores_unnamed_bits [of "0xE005", THEN conjunct1]
  have "String 0xE005 = String 0x5" by (simp only:)
  moreover from String_ignores_unnamed_bits [of "0xFFFFFFFFFFFFE000", THEN conjunct2] none
  have "String 0xFFFFFFFFFFFFE000 = ''None''" by (rule mp)
  ultimately show ?thesis using none by (intro conjI)
qed

end
